theory Spec2Isabelle
  imports Complex_Main "HOL-Library.Sublist"
begin

section \<open>Python values used by the skill dialog\<close>

text \<open>
  The development embeds \<^verbatim>\<open>botbuilder/dialogs/skills/skill_dialog.py\<close> (class
  \<^verbatim>\<open>SkillDialog\<close>). Exceptions are values of type \<open>error\<close>; every coroutine of the
  class is a function from the world before the call to a result and the world after it.
\<close>

datatype error =
    TypeError string
  | AttributeError string
  | KeyError string
  | RuntimeError string
  | Exception string

text \<open>Truth value of an \<^verbatim>\<open>Optional[str]\<close>: \<^verbatim>\<open>None\<close> and the empty string are false.\<close>

definition truthy :: "string option \<Rightarrow> bool" where
  "truthy s = (case s of None \<Rightarrow> False | Some x \<Rightarrow> x \<noteq> [])"

text \<open>\<^verbatim>\<open>str(x)\<close>, as an f-string renders an \<^verbatim>\<open>Optional[str]\<close> and an \<^verbatim>\<open>int\<close>.\<close>

definition str_opt :: "string option \<Rightarrow> string" where
  "str_opt s = (case s of None \<Rightarrow> ''None'' | Some x \<Rightarrow> x)"

fun str_nat :: "nat \<Rightarrow> string" where
  "str_nat n = (if n < 10 then [''0123456789'' ! n]
                else str_nat (n div 10) @ [''0123456789'' ! (n mod 10)])"

declare str_nat.simps [simp del]

definition str_int :: "int \<Rightarrow> string" where
  "str_int i = (if i < 0 then ''-'' @ str_nat (nat (- i)) else str_nat (nat i))"

text \<open>
  An attribute that holds an arbitrary Python object (\<^verbatim>\<open>Activity.value\<close>,
  \<^verbatim>\<open>Activity.channel_data\<close>): nothing, an opaque object, or the
  \<^verbatim>\<open>TokenExchangeInvokeRequest(id, token, connection_name)\<close> built by the dialog.
\<close>

datatype py_value =
    PyNone
  | PyObject string
  | TokenExchangeInvokeRequest "string option" "string option" "string option"

section \<open>Schema objects\<close>

record channel_account =
  account_id :: "string option"

record conversation_account =
  conversation_account_id :: "string option"

record token_exchange_resource =
  resource_id :: "string option"
  uri :: "string option"

record oauth_card =
  card_connection_name :: "string option"
  token_exchange_resource :: "token_exchange_resource option"

text \<open>
  The content of an attachment is read only when its content type is the OAuth card
  type, and is then used as an \<^verbatim>\<open>OAuthCard\<close> (or \<^verbatim>\<open>None\<close>).
\<close>

record attachment =
  content_type :: "string option"
  content :: "oauth_card option"

record activity =
  activity_type :: "string option"
  activity_id :: "string option"
  activity_name :: "string option"
  activity_value :: py_value
  delivery_mode :: "string option"
  attachments :: "attachment list option"
  conversation :: "conversation_account option"
  from_property :: "channel_account option"
  recipient :: "channel_account option"
  channel_id :: "string option"
  service_url :: "string option"
  activity_locale :: "string option"
  channel_data :: py_value
  additional_properties :: "(string \<times> string) list"

text \<open>\<^verbatim>\<open>Activity()\<close>: every attribute unset.\<close>

definition Activity :: activity where
  "Activity = \<lparr> activity_type = None, activity_id = None, activity_name = None,
     activity_value = PyNone, delivery_mode = None, attachments = None,
     conversation = None, from_property = None, recipient = None, channel_id = None,
     service_url = None, activity_locale = None, channel_data = PyNone,
     additional_properties = [] \<rparr>"

record conversation_reference =
  ref_activity_id :: "string option"
  ref_user :: "channel_account option"
  ref_bot :: "channel_account option"
  ref_conversation :: "conversation_account option"
  ref_channel_id :: "string option"
  ref_locale :: "string option"
  ref_service_url :: "string option"

text \<open>
  Modelled from the spec: the constants of \<^verbatim>\<open>ActivityTypes\<close>, \<^verbatim>\<open>DeliveryModes\<close>,
  \<^verbatim>\<open>DialogEvents\<close>, \<^verbatim>\<open>ContentTypes\<close> and \<^verbatim>\<open>SignInConstants\<close> are declared outside
  the source file. The spec names the activity types "invoke", "event" and
  "end-of-conversation", the reprompt event and the delivery mode "expectReplies"; it
  fixes no text for the OAuth card content type and the token-exchange operation name,
  for which the Bot Framework wire values stand here. The general theorems below hold
  whatever the text of a constant is; the evaluations on the sample deployment use only
  that "message" is not the end-of-conversation type.
\<close>

definition ActivityTypes_end_of_conversation :: string where
  "ActivityTypes_end_of_conversation = ''end-of-conversation''"

definition ActivityTypes_invoke :: string where
  "ActivityTypes_invoke = ''invoke''"

definition ActivityTypes_event :: string where
  "ActivityTypes_event = ''event''"

definition DeliveryModes_expect_replies :: string where
  "DeliveryModes_expect_replies = ''expectReplies''"

definition DialogEvents_reprompt_dialog :: string where
  "DialogEvents_reprompt_dialog = ''reprompt''"

definition ContentTypes_oauth_card :: string where
  "ContentTypes_oauth_card = ''application/vnd.microsoft.card.oauth''"

definition SignInConstants_token_exchange_operation_name :: string where
  "SignInConstants_token_exchange_operation_name = ''signin/tokenExchange''"

text \<open>
  Modelled from the spec: \<^verbatim>\<open>TurnContext.get_conversation_reference\<close> and
  \<^verbatim>\<open>TurnContext.apply_conversation_reference\<close> are not in the source file. The spec
  says that an outbound activity is stamped with the root conversation's correlation
  reference, as an incoming-direction activity: the reference is read off the turn's
  activity and written onto the correlation attributes of the outbound one, the user as
  sender and the bot as recipient; no other attribute is touched.
\<close>

definition get_conversation_reference :: "activity \<Rightarrow> conversation_reference" where
  "get_conversation_reference a =
     \<lparr> ref_activity_id = activity_id a, ref_user = from_property a, ref_bot = recipient a,
       ref_conversation = conversation a, ref_channel_id = channel_id a,
       ref_locale = activity_locale a, ref_service_url = service_url a \<rparr>"

definition apply_conversation_reference ::
  "activity \<Rightarrow> conversation_reference \<Rightarrow> bool \<Rightarrow> activity" where
  "apply_conversation_reference a r is_incoming =
     (let a1 = a\<lparr> channel_id := ref_channel_id r, activity_locale := ref_locale r,
                   service_url := ref_service_url r, conversation := ref_conversation r \<rparr>
      in if is_incoming
         then (let a2 = a1\<lparr> from_property := ref_user r, recipient := ref_bot r \<rparr>
               in if truthy (ref_activity_id r) then a2\<lparr> activity_id := ref_activity_id r \<rparr>
                  else a2)
         else a1\<lparr> from_property := ref_bot r, recipient := ref_user r \<rparr>)"

section \<open>Collaborators and the world\<close>

record bot_framework_skill =
  skill_id :: string
  app_id :: string
  skill_endpoint :: string

record invoke_response =
  status :: int
  body :: "string option"

record token_response =
  token :: "string option"

record skill_conversation_id_factory_options =
  from_bot_oauth_scope :: "string option"
  from_bot_id :: string
  factory_activity :: activity
  factory_skill :: bot_framework_skill

datatype dialog_reason =
    BeginCalled | ContinueCalled | EndCalled | ReplaceCalled | CancelCalled | NextCalled

datatype dialog_turn_result =
    EndOfTurn
  | Complete py_value

text \<open>
  Every call the dialog makes on a collaborator is recorded, in the order the calls are
  made, with its arguments:
  \<^item> \<open>SendTraceActivity name label\<close>: \<^verbatim>\<open>context.send_trace_activity(name, label=label)\<close>;
  \<^item> \<open>CreateSkillConversationId options\<close>:
    \<^verbatim>\<open>conversation_id_factory.create_skill_conversation_id(options)\<close>;
  \<^item> \<open>SaveChanges\<close>: \<^verbatim>\<open>conversation_state.save_changes(context, True)\<close>;
  \<^item> \<open>PostActivity bot_id app_id skill_endpoint host_endpoint conversation_id activity\<close>:
    \<^verbatim>\<open>skill_client.post_activity(...)\<close>;
  \<^item> \<open>ExchangeToken connection_name user_id uri\<close>: \<^verbatim>\<open>context.adapter.exchange_token(...)\<close>;
  \<^item> \<open>SendActivity activity\<close>: \<^verbatim>\<open>context.send_activity(activity)\<close>;
  \<^item> \<open>DialogContextEndDialog result\<close>: \<^verbatim>\<open>dialog_context.end_dialog(result)\<close>;
  \<^item> \<open>BaseEndDialog reason\<close>: \<^verbatim>\<open>super().end_dialog(context, instance, reason)\<close>.
\<close>

datatype event =
    SendTraceActivity string string
  | CreateSkillConversationId skill_conversation_id_factory_options
  | SaveChanges
  | PostActivity string string string string "string option" activity
  | ExchangeToken "string option" "string option" "string option"
  | SendActivity activity
  | DialogContextEndDialog py_value
  | BaseEndDialog dialog_reason

text \<open>
  The world: the calls made so far and the state dictionary of the active dialog frame
  (\<^verbatim>\<open>dialog_context.active_dialog.state\<close>).
\<close>

record world =
  event_log :: "event list"
  active_dialog_state :: "string \<rightharpoonup> string option"

text \<open>
  A collaborator answers a call from its arguments and from everything that happened
  before (the calls made so far); it returns or raises.
\<close>

record skill_dialog_options =
  bot_id :: string
  skill_host_endpoint :: string
  skill :: bot_framework_skill
  conversation_id_factory ::
    "event list \<Rightarrow> skill_conversation_id_factory_options \<Rightarrow> error + string"
  conversation_state :: "event list \<Rightarrow> error + unit"
  skill_client ::
    "event list \<Rightarrow> string \<Rightarrow> string \<Rightarrow> string \<Rightarrow> string \<Rightarrow> string option \<Rightarrow> activity
       \<Rightarrow> error + invoke_response"

text \<open>
  \<^verbatim>\<open>isinstance(context.adapter, ExtendedUserTokenProvider)\<close> holds exactly for the second
  constructor, which carries the adapter's \<^verbatim>\<open>exchange_token\<close>.
\<close>

datatype bot_adapter =
    BotAdapter
  | ExtendedUserTokenProvider
      "event list \<Rightarrow> string option \<Rightarrow> string option \<Rightarrow> string option
         \<Rightarrow> error + token_response option"

record turn_context =
  context_activity :: activity
  adapter :: bot_adapter
  bot_oauth_scope :: "string option"
  send_activity :: "event list \<Rightarrow> activity \<Rightarrow> error + unit"
  send_trace_activity :: "event list \<Rightarrow> string \<Rightarrow> string \<Rightarrow> error + unit"

record dialog_context =
  turn :: turn_context
  dc_end_dialog :: "event list \<Rightarrow> py_value \<Rightarrow> error + dialog_turn_result"

text \<open>
  Library operations of \<^verbatim>\<open>botbuilder.schema\<close> that the dialog calls and that are not in
  the source file, taken as parameters: \<^verbatim>\<open>Activity.create_reply()\<close> and
  \<^verbatim>\<open>ExpectedReplies().deserialize(body).activities\<close>. Either may raise.
\<close>

record schema =
  create_reply :: "activity \<Rightarrow> error + activity"
  deserialize_expected_replies :: "string option \<Rightarrow> error + activity list"

section \<open>Coroutines as world transformers\<close>

type_synonym 'a action = "world \<Rightarrow> (error + 'a) \<times> world"

definition returnA :: "'a \<Rightarrow> 'a action" where
  "returnA x = (\<lambda>w. (Inr x, w))"

definition raiseA :: "error \<Rightarrow> 'a action" where
  "raiseA e = (\<lambda>w. (Inl e, w))"

definition liftA :: "error + 'a \<Rightarrow> 'a action" where
  "liftA r = (\<lambda>w. (r, w))"

definition bindA :: "'a action \<Rightarrow> ('a \<Rightarrow> 'b action) \<Rightarrow> 'b action" where
  "bindA m f = (\<lambda>w. case m w of (Inl e, w') \<Rightarrow> (Inl e, w') | (Inr x, w') \<Rightarrow> f x w')"

text \<open>\<^verbatim>\<open>try: m  except: h\<close> with a bare \<^verbatim>\<open>except\<close>: what \<open>m\<close> did before raising stays done.\<close>

definition tryA :: "'a action \<Rightarrow> 'a action \<Rightarrow> 'a action" where
  "tryA m h = (\<lambda>w. case m w of (Inl e, w') \<Rightarrow> h w' | (Inr x, w') \<Rightarrow> (Inr x, w'))"

text \<open>A call on a collaborator: it answers from the history, and the call is recorded.\<close>

definition call :: "event \<Rightarrow> (event list \<Rightarrow> error + 'a) \<Rightarrow> 'a action" where
  "call ev answer = (\<lambda>w. (answer (event_log w), w\<lparr> event_log := event_log w @ [ev] \<rparr>))"

text \<open>Reading and writing \<^verbatim>\<open>dialog_context.active_dialog.state[key]\<close>.\<close>

definition set_state :: "string \<Rightarrow> string option \<Rightarrow> unit action" where
  "set_state key v =
     (\<lambda>w. (Inr (), w\<lparr> active_dialog_state := (active_dialog_state w)(key \<mapsto> v) \<rparr>))"

definition get_state :: "string \<Rightarrow> string option action" where
  "get_state key =
     (\<lambda>w. case active_dialog_state w key of
             None \<Rightarrow> (Inl (KeyError key), w)
           | Some v \<Rightarrow> (Inr v, w))"

text \<open>The calls made between two worlds.\<close>

definition events_since :: "world \<Rightarrow> world \<Rightarrow> event list" where
  "events_since w w' = drop (length (event_log w)) (event_log w')"

section \<open>The skill dialog\<close>

text \<open>
  \<^verbatim>\<open>SkillDialog.__init__\<close> stores the dialog options and fixes the two keys of the frame
  state that the dialog owns.
\<close>

definition deliver_mode_state_key :: string where
  "deliver_mode_state_key = ''deliverymode''"

definition sso_connection_name_key :: string where
  "sso_connection_name_key = ''SkillDialog.SSOConnectionName''"

text \<open>
  The \<^verbatim>\<open>options\<close> argument of \<^verbatim>\<open>begin_dialog\<close> is any Python object: \<^verbatim>\<open>None\<close> (or any
  other false object), an object that cannot be read as begin-options, or one that
  carries an activity and a connection name.
\<close>

record begin_skill_dialog_options =
  options_activity :: "activity option"
  options_connection_name :: "string option"

datatype options_object =
    NoneObject
  | OtherObject
  | BeginOptions begin_skill_dialog_options

text \<open>
  Modelled from the spec: \<^verbatim>\<open>BeginSkillDialogOptions.from_object\<close> is not in the source
  file; it yields \<^verbatim>\<open>None\<close> for an object that is not convertible to begin-options.
\<close>

definition from_object :: "options_object \<Rightarrow> begin_skill_dialog_options option" where
  "from_object obj = (case obj of BeginOptions args \<Rightarrow> Some args | _ \<Rightarrow> None)"

definition validate_begin_dialog_args ::
  "options_object \<Rightarrow> error + begin_skill_dialog_options" where
  "validate_begin_dialog_args options =
     (if options = NoneObject then Inl (TypeError ''options cannot be None.'')
      else case from_object options of
             None \<Rightarrow>
               Inl (TypeError ''SkillDialog: options object not valid as BeginSkillDialogOptions.'')
           | Some dialog_args \<Rightarrow>
               (case options_activity dialog_args of
                  None \<Rightarrow>
                    Inl (TypeError
                      ''SkillDialog: activity object in options as BeginSkillDialogOptions cannot be None.'')
                | Some a \<Rightarrow> Inr dialog_args))"

text \<open>The call \<^verbatim>\<open>skill_client.post_activity\<close> with the four arguments both call sites share.\<close>

definition post_activity ::
  "skill_dialog_options \<Rightarrow> string option \<Rightarrow> activity \<Rightarrow> invoke_response action" where
  "post_activity self conversation_id activity =
     (let skill_info = skill self in
      call (PostActivity (bot_id self) (app_id skill_info) (skill_endpoint skill_info)
              (skill_host_endpoint self) conversation_id activity)
           (\<lambda>h. skill_client self h (bot_id self) (app_id skill_info)
                   (skill_endpoint skill_info) (skill_host_endpoint self)
                   conversation_id activity))"

text \<open>
  \<^verbatim>\<open>response.status / 100 == 2\<close>. In Python 3 \<^verbatim>\<open>/\<close> is true division: the quotient of two
  integers is the fraction, not its integer part. The float that Python computes is the
  fraction rounded to the nearest float, and among the quotients of an integer by 100
  only 200 / 100 rounds to 2.0 (the nearest others are 1.99 and 2.01), so the comparison
  has the value it has over the rationals.
\<close>

definition status_class_is_2 :: "int \<Rightarrow> bool" where
  "status_class_is_2 s = ((of_int s :: rat) / 100 = 2)"

definition send_token_exchange_invoke_to_skill ::
  "schema \<Rightarrow> skill_dialog_options \<Rightarrow> activity \<Rightarrow> string option \<Rightarrow> string option
     \<Rightarrow> string option \<Rightarrow> bool action" where
  "send_token_exchange_invoke_to_skill lib self incoming_activity request_id
       connection_name token_value =
     bindA (liftA (create_reply lib incoming_activity)) (\<lambda>reply.
       let activity = reply\<lparr>
             activity_type := Some ActivityTypes_invoke,
             activity_name := Some SignInConstants_token_exchange_operation_name,
             activity_value := TokenExchangeInvokeRequest request_id token_value connection_name \<rparr>
       in bindA (case conversation incoming_activity of
                   None \<Rightarrow> raiseA (AttributeError ''id'')
                 | Some c \<Rightarrow> returnA (conversation_account_id c)) (\<lambda>incoming_conversation_id.
          bindA (post_activity self incoming_conversation_id activity) (\<lambda>response.
          returnA (status_class_is_2 (status response)))))"

text \<open>
  \<^verbatim>\<open>next(attachment for attachment in activity.attachments if ...)\<close>, with no default:
  iterating \<^verbatim>\<open>None\<close> raises \<^verbatim>\<open>TypeError\<close>, and when no attachment passes the test
  \<^verbatim>\<open>next\<close> raises \<^verbatim>\<open>StopIteration\<close>, which leaves a coroutine as a \<^verbatim>\<open>RuntimeError\<close>.
\<close>

definition next_oauth_card_attachment :: "attachment list option \<Rightarrow> error + attachment" where
  "next_oauth_card_attachment atts =
     (case atts of
        None \<Rightarrow> Inl (TypeError ''NoneType object is not iterable'')
      | Some xs \<Rightarrow>
          (case List.find (\<lambda>attachment. content_type attachment = Some ContentTypes_oauth_card) xs of
             None \<Rightarrow> Inl (RuntimeError ''coroutine raised StopIteration'')
           | Some attachment \<Rightarrow> Inr attachment))"

definition intercept_oauth_cards ::
  "schema \<Rightarrow> skill_dialog_options \<Rightarrow> turn_context \<Rightarrow> activity \<Rightarrow> string option
     \<Rightarrow> bool action" where
  "intercept_oauth_cards lib self ctx activity connection_name =
     (if \<not> truthy connection_name then returnA False
      else case adapter ctx of
        BotAdapter \<Rightarrow> returnA False
      | ExtendedUserTokenProvider exchange_token \<Rightarrow>
          bindA (liftA (next_oauth_card_attachment (attachments activity))) (\<lambda>oauth_card_attachment.
            case content oauth_card_attachment of
              None \<Rightarrow> returnA False
            | Some oauth \<Rightarrow>
                (case token_exchange_resource oauth of
                   None \<Rightarrow> returnA False
                 | Some resource \<Rightarrow>
                     if \<not> truthy (uri resource) then returnA False
                     else tryA
                       (bindA (case from_property (context_activity ctx) of
                                 None \<Rightarrow> raiseA (AttributeError ''id'')
                               | Some user \<Rightarrow> returnA (account_id user)) (\<lambda>user_id.
                        bindA (call (ExchangeToken connection_name user_id (uri resource))
                                 (\<lambda>h. exchange_token h connection_name user_id (uri resource)))
                          (\<lambda>result.
                             case result of
                               None \<Rightarrow> returnA False
                             | Some r \<Rightarrow>
                                 if truthy (token r)
                                 then send_token_exchange_invoke_to_skill lib self activity
                                        (resource_id resource) (card_connection_name oauth) (token r)
                                 else returnA False)))
                       (returnA False))))"

text \<open>
  The loop over the replies of an \<^verbatim>\<open>expectReplies\<close> response, with the
  end-of-conversation activity captured so far.
\<close>

fun process_replies ::
  "schema \<Rightarrow> skill_dialog_options \<Rightarrow> turn_context \<Rightarrow> string option \<Rightarrow> activity list
     \<Rightarrow> activity option \<Rightarrow> activity option action" where
  "process_replies lib self ctx connection_name [] eoc_activity = returnA eoc_activity"
| "process_replies lib self ctx connection_name (from_skill_activity # rest) eoc_activity =
     (if activity_type from_skill_activity = Some ActivityTypes_end_of_conversation
      then process_replies lib self ctx connection_name rest (Some from_skill_activity)
      else bindA (intercept_oauth_cards lib self ctx from_skill_activity connection_name)
             (\<lambda>handled.
                if handled then process_replies lib self ctx connection_name rest eoc_activity
                else bindA (call (SendActivity from_skill_activity)
                              (\<lambda>h. send_activity ctx h from_skill_activity))
                       (\<lambda>_. process_replies lib self ctx connection_name rest eoc_activity)))"

text \<open>The message of the exception raised for a response status outside 200..299.\<close>

definition skill_error_message :: "bot_framework_skill \<Rightarrow> invoke_response \<Rightarrow> string" where
  "skill_error_message skill_info response =
     ''Error invoking the skill id: '' @ [CHR 0x22] @ skill_id skill_info @ [CHR 0x22]
       @ '' at '' @ [CHR 0x22] @ skill_endpoint skill_info @ [CHR 0x22]
       @ '' (status is '' @ str_int (status response) @ ''). '' @ [CHR 0x0D, CHR 0x0A]
       @ '' '' @ str_opt (body response)"

definition send_to_skill ::
  "schema \<Rightarrow> skill_dialog_options \<Rightarrow> turn_context \<Rightarrow> activity \<Rightarrow> string option
     \<Rightarrow> activity option action" where
  "send_to_skill lib self ctx activity connection_name =
     (let conversation_id_factory_options =
            \<lparr> from_bot_oauth_scope = bot_oauth_scope ctx, from_bot_id = bot_id self,
              factory_activity = activity, factory_skill = skill self \<rparr>
      in bindA (call (CreateSkillConversationId conversation_id_factory_options)
                  (\<lambda>h. conversation_id_factory self h conversation_id_factory_options))
           (\<lambda>skill_conversation_id.
         let skill_info = skill self in
         bindA (call SaveChanges (conversation_state self)) (\<lambda>_.
         bindA (post_activity self (Some skill_conversation_id) activity) (\<lambda>response.
           if \<not> (200 \<le> status response \<and> status response \<le> 299)
           then raiseA (Exception (skill_error_message skill_info response))
           else if delivery_mode activity = Some DeliveryModes_expect_replies
                   \<and> truthy (body response)
           then bindA (liftA (deserialize_expected_replies lib (body response)))
                  (\<lambda>replies. process_replies lib self ctx connection_name replies None)
           else returnA None))))"

text \<open>\<^verbatim>\<open>dialog_context.end_dialog(result)\<close> and \<^verbatim>\<open>context.send_trace_activity(name, label)\<close>.\<close>

definition end_dialog_context :: "dialog_context \<Rightarrow> py_value \<Rightarrow> dialog_turn_result action" where
  "end_dialog_context dc result = call (DialogContextEndDialog result) (\<lambda>h. dc_end_dialog dc h result)"

definition trace_activity :: "turn_context \<Rightarrow> string \<Rightarrow> string \<Rightarrow> unit action" where
  "trace_activity ctx name label =
     call (SendTraceActivity name label) (\<lambda>h. send_trace_activity ctx h name label)"

definition begin_dialog ::
  "schema \<Rightarrow> skill_dialog_options \<Rightarrow> dialog_context \<Rightarrow> options_object
     \<Rightarrow> dialog_turn_result action" where
  "begin_dialog lib self dc options =
     bindA (liftA (validate_begin_dialog_args options)) (\<lambda>dialog_args.
       case options_activity dialog_args of
         None \<Rightarrow> raiseA (AttributeError ''type'')
       | Some args_activity \<Rightarrow>
           bindA (trace_activity (turn dc) ''SkillDialog.BeginDialogAsync()''
                    (''Using activity of type: '' @ str_opt (activity_type args_activity))) (\<lambda>_.
           let skill_activity = apply_conversation_reference args_activity
                 (get_conversation_reference (context_activity (turn dc))) True
           in bindA (set_state deliver_mode_state_key (delivery_mode args_activity)) (\<lambda>_.
              bindA (set_state sso_connection_name_key (options_connection_name dialog_args)) (\<lambda>_.
              bindA (send_to_skill lib self (turn dc) skill_activity
                       (options_connection_name dialog_args)) (\<lambda>eoc_activity.
                case eoc_activity of
                  Some eoc \<Rightarrow> end_dialog_context dc (activity_value eoc)
                | None \<Rightarrow> returnA EndOfTurn)))))"

definition continue_dialog ::
  "schema \<Rightarrow> skill_dialog_options \<Rightarrow> dialog_context \<Rightarrow> dialog_turn_result action" where
  "continue_dialog lib self dc =
     bindA (trace_activity (turn dc) ''SkillDialog.continue_dialog()''
              (''ActivityType: '' @ str_opt (activity_type (context_activity (turn dc))))) (\<lambda>_.
       if activity_type (context_activity (turn dc)) = Some ActivityTypes_end_of_conversation
       then bindA (trace_activity (turn dc) ''SkillDialog.continue_dialog()''
                     (''Got '' @ ActivityTypes_end_of_conversation)) (\<lambda>_.
              end_dialog_context dc (activity_value (context_activity (turn dc))))
       else bindA (get_state deliver_mode_state_key) (\<lambda>stored_delivery_mode.
            let skill_activity = (context_activity (turn dc))\<lparr> delivery_mode := stored_delivery_mode \<rparr>
            in bindA (get_state sso_connection_name_key) (\<lambda>connection_name.
               bindA (send_to_skill lib self (turn dc) skill_activity connection_name)
                 (\<lambda>eoc_activity.
                    case eoc_activity of
                      Some eoc \<Rightarrow> end_dialog_context dc (activity_value eoc)
                    | None \<Rightarrow> returnA EndOfTurn))))"

definition reprompt_dialog ::
  "schema \<Rightarrow> skill_dialog_options \<Rightarrow> turn_context \<Rightarrow> unit action" where
  "reprompt_dialog lib self ctx =
     (let reprompt_event = apply_conversation_reference
            (Activity\<lparr> activity_type := Some ActivityTypes_event,
                       activity_name := Some DialogEvents_reprompt_dialog \<rparr>)
            (get_conversation_reference (context_activity ctx)) True
      in bindA (send_to_skill lib self ctx reprompt_event None) (\<lambda>_. returnA ()))"

definition resume_dialog ::
  "schema \<Rightarrow> skill_dialog_options \<Rightarrow> dialog_context \<Rightarrow> dialog_turn_result action" where
  "resume_dialog lib self dc =
     bindA (reprompt_dialog lib self (turn dc)) (\<lambda>_. returnA EndOfTurn)"

text \<open>
  The end-of-conversation activity that \<^verbatim>\<open>end_dialog\<close> builds from the turn's activity
  when the dialog is cancelled or replaced.
\<close>

definition cancellation_activity :: "turn_context \<Rightarrow> activity" where
  "cancellation_activity ctx =
     (apply_conversation_reference
        (Activity\<lparr> activity_type := Some ActivityTypes_end_of_conversation \<rparr>)
        (get_conversation_reference (context_activity ctx)) True)
       \<lparr> channel_data := channel_data (context_activity ctx),
         additional_properties := additional_properties (context_activity ctx) \<rparr>"

definition end_dialog ::
  "schema \<Rightarrow> skill_dialog_options \<Rightarrow> turn_context \<Rightarrow> dialog_reason \<Rightarrow> unit action" where
  "end_dialog lib self ctx reason =
     bindA (if reason = CancelCalled \<or> reason = ReplaceCalled
            then bindA (trace_activity ctx ''SkillDialog.end_dialog()''
                          (''ActivityType: '' @ str_opt (activity_type (context_activity ctx))))
                   (\<lambda>_. bindA (send_to_skill lib self ctx (cancellation_activity ctx) None)
                           (\<lambda>_. returnA ()))
            else returnA ())
       (\<lambda>_. call (BaseEndDialog reason) (\<lambda>h. Inr ()))"

text \<open>Any number of later turns, each with its own dialog context, results dropped.\<close>

fun continue_turns ::
  "schema \<Rightarrow> skill_dialog_options \<Rightarrow> dialog_context list \<Rightarrow> world \<Rightarrow> world" where
  "continue_turns lib self [] w = w"
| "continue_turns lib self (dc # dcs) w =
     continue_turns lib self dcs (snd (continue_dialog lib self dc w))"

section \<open>Reading the record of calls\<close>

text \<open>The activities posted to the skill, in order.\<close>

fun posted_activities :: "event list \<Rightarrow> activity list" where
  "posted_activities [] = []"
| "posted_activities (PostActivity b a e h c act # es) = act # posted_activities es"
| "posted_activities (ev # es) = posted_activities es"

text \<open>The calls that reach the skill or save the conversation state.\<close>

fun skill_event :: "event \<Rightarrow> bool" where
  "skill_event (CreateSkillConversationId opts) = True"
| "skill_event SaveChanges = True"
| "skill_event (PostActivity b a e h c act) = True"
| "skill_event ev = False"

text \<open>
  The factory options that \<^verbatim>\<open>_send_to_skill\<close> builds for an activity, and the record of a
  \<^verbatim>\<open>post_activity\<close> call with a conversation id and an activity.
\<close>

definition factory_options :: "skill_dialog_options \<Rightarrow> turn_context \<Rightarrow> activity \<Rightarrow> skill_conversation_id_factory_options" where
  "factory_options self ctx a = \<lparr> from_bot_oauth_scope = bot_oauth_scope ctx, from_bot_id = bot_id self,
              factory_activity = a, factory_skill = skill self \<rparr>"

definition posting :: "skill_dialog_options \<Rightarrow> string option \<Rightarrow> activity \<Rightarrow> event" where
  "posting self c a = PostActivity (bot_id self) (app_id (skill self)) (skill_endpoint (skill self))
              (skill_host_endpoint self) c a"

text \<open>
  A coroutine that leaves the state of the dialog frame as it is and only adds calls to
  the record.
\<close>

definition frame_preserving :: "'a action \<Rightarrow> bool" where
  "frame_preserving m =
     (\<forall>w. active_dialog_state (snd (m w)) = active_dialog_state w
          \<and> prefix (event_log w) (event_log (snd (m w))))"

section \<open>A sample deployment\<close>

text \<open>
  A root bot with one skill. The skill client answers every post with a given status
  and body, the adapter exchanges every token, and the channel accepts every activity.
\<close>

definition sample_skill :: bot_framework_skill where
  "sample_skill = \<lparr> skill_id = ''booking'', app_id = ''skill-app'',
     skill_endpoint = ''https://skill.example/api/messages'' \<rparr>"

definition sample_options :: "int \<Rightarrow> string option \<Rightarrow> skill_dialog_options" where
  "sample_options s b =
     \<lparr> bot_id = ''root-bot'', skill_host_endpoint = ''https://root.example/api/skills'',
       skill = sample_skill,
       conversation_id_factory = (\<lambda>h opts. Inr ''skill-conversation''),
       conversation_state = (\<lambda>h. Inr ()),
       skill_client = (\<lambda>h caller app endpoint host cid act. Inr \<lparr> status = s, body = b \<rparr>) \<rparr>"

definition sample_user_message :: activity where
  "sample_user_message = Activity\<lparr>
     activity_type := Some ''message'',
     conversation := Some \<lparr> conversation_account_id = Some ''root-conversation'' \<rparr>,
     from_property := Some \<lparr> account_id = Some ''user-1'' \<rparr>,
     recipient := Some \<lparr> account_id = Some ''root-bot'' \<rparr>,
     channel_data := PyObject ''channel-data'',
     additional_properties := [(''tenant'', ''contoso'')] \<rparr>"

definition sample_context :: "activity \<Rightarrow> turn_context" where
  "sample_context a =
     \<lparr> context_activity = a,
       adapter = ExtendedUserTokenProvider
         (\<lambda>h cn user resource_uri. Inr (Some \<lparr> token = Some ''exchanged-token'' \<rparr>)),
       bot_oauth_scope = None,
       send_activity = (\<lambda>h a. Inr ()),
       send_trace_activity = (\<lambda>h name label. Inr ()) \<rparr>"

definition sample_dialog_context :: "activity \<Rightarrow> dialog_context" where
  "sample_dialog_context a =
     \<lparr> turn = sample_context a, dc_end_dialog = (\<lambda>h v. Inr (Complete v)) \<rparr>"

definition sample_schema :: "activity list \<Rightarrow> schema" where
  "sample_schema replies =
     \<lparr> create_reply = (\<lambda>a. Inr (Activity\<lparr> activity_type := Some ''message'',
          conversation := conversation a, from_property := recipient a,
          recipient := from_property a \<rparr>)),
       deserialize_expected_replies = (\<lambda>b. Inr replies) \<rparr>"

definition empty_world :: world where
  "empty_world = \<lparr> event_log = [], active_dialog_state = Map.empty \<rparr>"

definition sample_end_of_conversation :: activity where
  "sample_end_of_conversation = Activity\<lparr>
     activity_type := Some ActivityTypes_end_of_conversation,
     activity_value := PyObject ''booking-confirmed'',
     conversation := Some \<lparr> conversation_account_id = Some ''root-conversation'' \<rparr> \<rparr>"

definition sample_oauth_card_reply :: activity where
  "sample_oauth_card_reply = Activity\<lparr>
     activity_type := Some ''message'',
     attachments := Some [\<lparr> content_type = Some ContentTypes_oauth_card,
        content = Some \<lparr> card_connection_name = Some ''skill-connection'',
          token_exchange_resource = Some \<lparr> resource_id = Some ''resource-1'',
            uri = Some ''api://skill/resource'' \<rparr> \<rparr> \<rparr>],
     conversation := Some \<lparr> conversation_account_id = Some ''root-conversation'' \<rparr> \<rparr>"

definition sample_text_reply :: activity where
  "sample_text_reply = Activity\<lparr>
     activity_type := Some ''message'',
     activity_value := PyObject ''Hello from the skill'',
     attachments := Some [],
     conversation := Some \<lparr> conversation_account_id = Some ''root-conversation'' \<rparr> \<rparr>"

definition sample_expect_replies_message :: activity where
  "sample_expect_replies_message =
     sample_user_message\<lparr> delivery_mode := Some DeliveryModes_expect_replies \<rparr>"

text \<open>
  The end-of-conversation activity that the loop over a batch of replies holds at its
  end: the last one of the batch, or the one held before.
\<close>

fun last_end_of_conversation :: "activity list \<Rightarrow> activity option \<Rightarrow> activity option" where
  "last_end_of_conversation [] eoc = eoc"
| "last_end_of_conversation (a # rest) eoc =
     last_end_of_conversation rest
       (if activity_type a = Some ActivityTypes_end_of_conversation then Some a else eoc)"

section \<open>The response status class\<close>

lemma status_class_is_2_iff: "status_class_is_2 s \<longleftrightarrow> s = 200"
proof -
  have "((of_int s :: rat) / 100 = 2) \<longleftrightarrow> (of_int s :: rat) = of_int 200"
    by (simp add: field_simps)
  also have "\<dots> \<longleftrightarrow> s = 200"
    by (simp only: of_int_eq_iff)
  finally show ?thesis by (simp add: status_class_is_2_def)
qed

section \<open>Frame preservation\<close>

lemma fp_returnA: "frame_preserving (returnA x)" by (simp add: frame_preserving_def returnA_def)
lemma fp_raiseA: "frame_preserving (raiseA x)" by (simp add: frame_preserving_def raiseA_def)
lemma fp_liftA: "frame_preserving (liftA x)" by (simp add: frame_preserving_def liftA_def)
lemma fp_call: "frame_preserving (call ev f)" by (simp add: frame_preserving_def call_def)
lemma fp_get_state: "frame_preserving (get_state k)" by (simp add: frame_preserving_def get_state_def split: option.splits)
lemma fp_bindA: 
  assumes "frame_preserving m" "\<And>x. frame_preserving (f x)" 
  shows "frame_preserving (bindA m f)"
  unfolding frame_preserving_def
proof (intro allI)
  fix w
  obtain r w1 where m: "m w = (r, w1)" by (cases "m w")
  from assms(1) m have 1: "active_dialog_state w1 = active_dialog_state w" "prefix (event_log w) (event_log w1)"
    by (auto simp: frame_preserving_def dest: spec[of _ w])
  show "active_dialog_state (snd (bindA m f w)) = active_dialog_state w \<and>
         prefix (event_log w) (event_log (snd (bindA m f w)))"
  proof (cases r)
    case (Inl e)
    with m 1 show ?thesis by (simp add: bindA_def)
  next
    case (Inr x)
    from assms(2)[of x] have "active_dialog_state (snd (f x w1)) = active_dialog_state w1" 
       "prefix (event_log w1) (event_log (snd (f x w1)))"
      by (auto simp: frame_preserving_def)
    with Inr m 1 show ?thesis by (auto simp add: bindA_def)
  qed
qed

lemma fp_tryA: 
  assumes "frame_preserving m" "frame_preserving h"
  shows "frame_preserving (tryA m h)"
  unfolding frame_preserving_def
proof (intro allI)
  fix w
  obtain r w1 where m: "m w = (r, w1)" by (cases "m w")
  from assms(1) m have 1: "active_dialog_state w1 = active_dialog_state w" "prefix (event_log w) (event_log w1)"
    by (auto simp: frame_preserving_def dest: spec[of _ w])
  show "active_dialog_state (snd (tryA m h w)) = active_dialog_state w \<and>
         prefix (event_log w) (event_log (snd (tryA m h w)))"
  proof (cases r)
    case (Inr x)
    with m 1 show ?thesis by (simp add: tryA_def)
  next
    case (Inl e)
    from assms(2) have "active_dialog_state (snd (h w1)) = active_dialog_state w1" 
       "prefix (event_log w1) (event_log (snd (h w1)))"
      by (auto simp: frame_preserving_def)
    with Inl m 1 show ?thesis by (auto simp add: tryA_def)
  qed
qed

lemma fp_if: "frame_preserving a \<Longrightarrow> frame_preserving b \<Longrightarrow> frame_preserving (if c then a else b)"
  by simp
lemma fp_case_option: "frame_preserving a \<Longrightarrow> (\<And>y. frame_preserving (b y)) \<Longrightarrow> frame_preserving (case x of None \<Rightarrow> a | Some y \<Rightarrow> b y)"
  by (cases x) simp_all
lemma fp_case_adapter: "frame_preserving a \<Longrightarrow> (\<And>y. frame_preserving (b y)) \<Longrightarrow> frame_preserving (case x of BotAdapter \<Rightarrow> a | ExtendedUserTokenProvider y \<Rightarrow> b y)"
  by (cases x) simp_all
lemma fp_let: "(\<And>x. frame_preserving (f x)) \<Longrightarrow> frame_preserving (Let v f)"
  by simp

lemmas fp_intros = fp_returnA fp_raiseA fp_liftA fp_call fp_get_state fp_bindA fp_tryA
   fp_if fp_case_option fp_case_adapter fp_let

lemma fp_post: "frame_preserving (post_activity self c a)"
  by (simp add: post_activity_def Let_def fp_call)

lemma fp_send_token: "frame_preserving (send_token_exchange_invoke_to_skill lib self a rid cn t)"
  unfolding send_token_exchange_invoke_to_skill_def
  by (intro fp_intros fp_post)

lemma fp_intercept: "frame_preserving (intercept_oauth_cards lib self ctx a cn)"
  unfolding intercept_oauth_cards_def
  by (intro fp_intros fp_send_token)

lemma fp_process_replies: "frame_preserving (process_replies lib self ctx cn replies eoc)"
  by (induction replies arbitrary: eoc) (auto intro!: fp_intros fp_intercept)

lemma fp_send_to_skill: "frame_preserving (send_to_skill lib self ctx a cn)"
  unfolding send_to_skill_def
  by (intro fp_intros fp_post fp_process_replies)

lemma fp_end_dialog_context: "frame_preserving (end_dialog_context dc v)"
  by (simp add: end_dialog_context_def fp_call)

lemma fp_trace: "frame_preserving (trace_activity ctx n l)"
  by (simp add: trace_activity_def fp_call)

lemma fp_continue_dialog: "frame_preserving (continue_dialog lib self dc)"
  unfolding continue_dialog_def
  by (intro fp_intros fp_trace fp_end_dialog_context fp_send_to_skill)

lemma fp_end_dialog: "frame_preserving (end_dialog lib self ctx reason)"
  unfolding end_dialog_def
  by (intro fp_intros fp_trace fp_send_to_skill)

lemma events_since_append [simp]:
  "events_since w (w'\<lparr> event_log := event_log w @ es \<rparr>) = es"
  by (simp add: events_since_def)

lemma events_since_self [simp]: "events_since w w = []"
  by (simp add: events_since_def)

lemma events_since_prefix:
  "prefix (event_log w) (event_log w') \<Longrightarrow> event_log w' = event_log w @ events_since w w'"
  by (auto simp: events_since_def prefix_def)

lemma events_since_trans:
  assumes "prefix (event_log w) (event_log w')" "prefix (event_log w') (event_log w'')"
  shows "events_since w w'' = events_since w w' @ events_since w' w''"
  using assms by (auto simp: events_since_def prefix_def)

lemma fp_prefix: "frame_preserving m \<Longrightarrow> prefix (event_log w) (event_log (snd (m w)))"
  by (simp add: frame_preserving_def)

lemma fp_state: "frame_preserving m \<Longrightarrow> active_dialog_state (snd (m w)) = active_dialog_state w"
  by (simp add: frame_preserving_def)

section \<open>The calls of one forwarding\<close>

lemma send_to_skill_unfold:
  "send_to_skill lib self ctx a cn w =
    (let ev1 = CreateSkillConversationId (factory_options self ctx a);
         w1 = w\<lparr> event_log := event_log w @ [ev1] \<rparr>;
         w2 = w\<lparr> event_log := event_log w @ [ev1, SaveChanges] \<rparr> in
     case conversation_id_factory self (event_log w) (factory_options self ctx a) of
       Inl e \<Rightarrow> (Inl e, w1)
     | Inr cid \<Rightarrow>
        (case conversation_state self (event_log w1) of
           Inl e \<Rightarrow> (Inl e, w2)
         | Inr u \<Rightarrow>
            (let w3 = w\<lparr> event_log := event_log w @ [ev1, SaveChanges, posting self (Some cid) a] \<rparr> in
             case skill_client self (event_log w2) (bot_id self) (app_id (skill self))
                   (skill_endpoint (skill self)) (skill_host_endpoint self) (Some cid) a of
               Inl e \<Rightarrow> (Inl e, w3)
             | Inr response \<Rightarrow>
                 if \<not> (200 \<le> status response \<and> status response \<le> 299)
                 then (Inl (Exception (skill_error_message (skill self) response)), w3)
                 else if delivery_mode a = Some DeliveryModes_expect_replies \<and> truthy (body response)
                 then bindA (liftA (deserialize_expected_replies lib (body response)))
                        (\<lambda>replies. process_replies lib self ctx cn replies None) w3
                 else (Inr None, w3))))"
  by (simp add: send_to_skill_def factory_options_def posting_def Let_def bindA_def call_def
        post_activity_def raiseA_def returnA_def split: sum.splits)

lemma events_since_after:
  assumes "frame_preserving m"
  shows "events_since w (snd (m (w\<lparr> event_log := event_log w @ es \<rparr>)))
           = es @ events_since (w\<lparr> event_log := event_log w @ es \<rparr>)
                    (snd (m (w\<lparr> event_log := event_log w @ es \<rparr>)))"
proof -
  let ?w1 = "w\<lparr> event_log := event_log w @ es \<rparr>"
  have "prefix (event_log w) (event_log ?w1)" by simp
  moreover have "prefix (event_log ?w1) (event_log (snd (m ?w1)))"
    using assms by (rule fp_prefix)
  ultimately have "events_since w (snd (m ?w1)) = events_since w ?w1 @ events_since ?w1 (snd (m ?w1))"
    by (rule events_since_trans)
  then show ?thesis by simp
qed

lemma send_to_skill_events:
  fixes w lib self ctx a cn
  defines "es \<equiv> events_since w (snd (send_to_skill lib self ctx a cn w))"
  defines "ev1 \<equiv> CreateSkillConversationId (factory_options self ctx a)"
  obtains (no_id) e where "es = [ev1]"
      "conversation_id_factory self (event_log w) (factory_options self ctx a) = Inl e"
  | (no_save) e where "es = [ev1, SaveChanges]"
      "conversation_state self (event_log w @ [ev1]) = Inl e"
  | (posted) cid rest where "es = ev1 # SaveChanges # posting self (Some cid) a # rest"
      "conversation_id_factory self (event_log w) (factory_options self ctx a) = Inr cid"
      "conversation_state self (event_log w @ [ev1]) = Inr ()"
proof (cases "conversation_id_factory self (event_log w) (factory_options self ctx a)")
  case (Inl e)
  then have "es = [ev1]"
    by (simp add: es_def ev1_def send_to_skill_unfold Let_def)
  then show ?thesis using Inl by (rule no_id)
next
  case cid: (Inr cid)
  show ?thesis
  proof (cases "conversation_state self (event_log w @ [ev1])")
    case (Inl e)
    with cid have "es = [ev1, SaveChanges]"
      by (simp add: es_def ev1_def send_to_skill_unfold Let_def)
    then show ?thesis using Inl by (rule no_save)
  next
    case saved: (Inr u)
    let ?P = "posting self (Some cid) a"
    let ?w3 = "w\<lparr> event_log := event_log w @ [ev1, SaveChanges, ?P] \<rparr>"
    let ?m = "bindA (liftA (deserialize_expected_replies lib
                 (body (projr (skill_client self (event_log w @ [ev1, SaveChanges]) (bot_id self)
                    (app_id (skill self)) (skill_endpoint (skill self)) (skill_host_endpoint self)
                    (Some cid) a)))))
                (\<lambda>replies. process_replies lib self ctx cn replies None)"
    have fp: "frame_preserving ?m"
      by (intro fp_intros fp_process_replies)
    have "\<exists>rest. es = [ev1, SaveChanges, ?P] @ rest"
    proof (cases "skill_client self (event_log w @ [ev1, SaveChanges]) (bot_id self)
                    (app_id (skill self)) (skill_endpoint (skill self)) (skill_host_endpoint self)
                    (Some cid) a")
      case (Inl e)
      with cid saved show ?thesis
        by (simp add: es_def ev1_def send_to_skill_unfold Let_def)
    next
      case (Inr response)
      show ?thesis
      proof (cases "200 \<le> status response \<and> status response \<le> 299
                     \<and> delivery_mode a = Some DeliveryModes_expect_replies \<and> truthy (body response)")
        case False
        with cid saved Inr show ?thesis
          by (auto simp add: es_def ev1_def send_to_skill_unfold Let_def)
      next
        case True
        with cid saved Inr have "es = events_since w (snd (?m ?w3))"
          by (simp add: es_def ev1_def send_to_skill_unfold Let_def)
        also have "\<dots> = [ev1, SaveChanges, ?P] @ events_since ?w3 (snd (?m ?w3))"
          using fp by (rule events_since_after)
        finally show ?thesis by blast
      qed
    qed
    then obtain rest where es: "es = ev1 # SaveChanges # ?P # rest" by auto
    have sv: "conversation_state self (event_log w @ [ev1]) = Inr ()"
      using saved by simp
    show ?thesis by (rule posted[OF es cid sv])
  qed
qed

section \<open>Rejected begin arguments\<close>

text \<open>
  Claim C8. When the options of \<^verbatim>\<open>begin_dialog\<close> are \<^verbatim>\<open>None\<close>, are not convertible to
  begin-options, or carry no activity, the call raises a \<^verbatim>\<open>TypeError\<close> at once and the
  world is the one it started from: neither key of the frame state is written and no
  call is made, so nothing is sent to the skill.
\<close>

theorem begin_dialog_rejects:
  "begin_dialog lib self dc NoneObject w = (Inl (TypeError ''options cannot be None.''), w)
   \<and> begin_dialog lib self dc OtherObject w =
       (Inl (TypeError ''SkillDialog: options object not valid as BeginSkillDialogOptions.''), w)
   \<and> begin_dialog lib self dc
         (BeginOptions \<lparr> options_activity = None, options_connection_name = cn \<rparr>) w =
       (Inl (TypeError
          ''SkillDialog: activity object in options as BeginSkillDialogOptions cannot be None.''), w)"
  by (simp add: begin_dialog_def validate_begin_dialog_args_def from_object_def bindA_def liftA_def)

section \<open>Saving before posting\<close>

text \<open>
  Claim C5. In every run of \<^verbatim>\<open>_send_to_skill\<close> that posts anything to the skill, the calls
  of the run start with calls that post nothing, followed by \<^verbatim>\<open>save_changes\<close>, and that
  save returned normally: no activity is posted before the state has been saved.
\<close>

theorem state_saved_before_post:
  assumes "posted_activities (events_since w (snd (send_to_skill lib self ctx a cn w))) \<noteq> []"
  shows "\<exists>pre rest.
           events_since w (snd (send_to_skill lib self ctx a cn w)) = pre @ SaveChanges # rest
           \<and> posted_activities pre = []
           \<and> conversation_state self (event_log w @ pre) = Inr ()"
proof (cases rule: send_to_skill_events[of w lib self ctx a cn])
  case (no_id e)
  with assms show ?thesis by simp
next
  case (no_save e)
  with assms show ?thesis by simp
next
  case (posted cid rest)
  let ?ev1 = "CreateSkillConversationId (factory_options self ctx a)"
  have "events_since w (snd (send_to_skill lib self ctx a cn w))
          = [?ev1] @ SaveChanges # (posting self (Some cid) a # rest)"
    using posted(1) by simp
  moreover have "posted_activities [?ev1] = []" by simp
  moreover have "conversation_state self (event_log w @ [?ev1]) = Inr ()"
    using posted(3) .
  ultimately show ?thesis by blast
qed

theorem state_saved_before_post_witness:
  "posted_activities (events_since empty_world
      (snd (send_to_skill (sample_schema []) (sample_options 200 None)
              (sample_context sample_user_message) sample_user_message None empty_world))) \<noteq> []
   \<and> (\<exists>pre rest.
         events_since empty_world
           (snd (send_to_skill (sample_schema []) (sample_options 200 None)
                   (sample_context sample_user_message) sample_user_message None empty_world))
           = pre @ SaveChanges # rest
         \<and> posted_activities pre = []
         \<and> conversation_state (sample_options 200 None) (event_log empty_world @ pre) = Inr ())"
proof -
  have h: "posted_activities (events_since empty_world
      (snd (send_to_skill (sample_schema []) (sample_options 200 None)
              (sample_context sample_user_message) sample_user_message None empty_world))) \<noteq> []"
    by (simp add: send_to_skill_unfold Let_def posting_def sample_options_def truthy_def)
  from h state_saved_before_post[OF h] show ?thesis by (intro conjI)
qed

section \<open>The status of the skill's response\<close>

text \<open>
  Claim C7. When the conversation id was created, the state saved and the skill client
  returned a response: a status below 200 or above 299 makes \<^verbatim>\<open>_send_to_skill\<close> raise an
  exception whose message names the skill id, the skill endpoint, the status and the
  body, after exactly one post (nothing is retried); a status from 200 to 299 lets the
  call go on to the replies of the response.
\<close>

theorem status_outside_2xx_aborts:
  assumes "conversation_id_factory self (event_log w) (factory_options self ctx a) = Inr cid"
    and "conversation_state self
           (event_log w @ [CreateSkillConversationId (factory_options self ctx a)]) = Inr ()"
    and "skill_client self
           (event_log w @ [CreateSkillConversationId (factory_options self ctx a), SaveChanges])
           (bot_id self) (app_id (skill self)) (skill_endpoint (skill self))
           (skill_host_endpoint self) (Some cid) a = Inr response"
  shows "(status response < 200 \<or> 299 < status response \<longrightarrow>
            fst (send_to_skill lib self ctx a cn w) =
              Inl (Exception
                (''Error invoking the skill id: '' @ [CHR 0x22] @ skill_id (skill self)
                   @ [CHR 0x22] @ '' at '' @ [CHR 0x22] @ skill_endpoint (skill self)
                   @ [CHR 0x22] @ '' (status is '' @ str_int (status response) @ ''). ''
                   @ [CHR 0x0D, CHR 0x0A] @ '' '' @ str_opt (body response)))
            \<and> events_since w (snd (send_to_skill lib self ctx a cn w)) =
                [CreateSkillConversationId (factory_options self ctx a), SaveChanges,
                 posting self (Some cid) a])
       \<and> (200 \<le> status response \<and> status response \<le> 299 \<longrightarrow>
            send_to_skill lib self ctx a cn w =
              (if delivery_mode a = Some DeliveryModes_expect_replies \<and> truthy (body response)
               then bindA (liftA (deserialize_expected_replies lib (body response)))
                      (\<lambda>replies. process_replies lib self ctx cn replies None)
               else returnA None)
                (w\<lparr> event_log := event_log w @
                     [CreateSkillConversationId (factory_options self ctx a), SaveChanges,
                      posting self (Some cid) a] \<rparr>))"
  using assms
  by (auto simp add: send_to_skill_unfold Let_def skill_error_message_def returnA_def)

theorem status_outside_2xx_aborts_witness:
  "fst (send_to_skill (sample_schema []) (sample_options 199 None)
          (sample_context sample_user_message) sample_user_message None empty_world)
     = Inl (Exception (''Error invoking the skill id: '' @ [CHR 0x22] @ ''booking''
                   @ [CHR 0x22] @ '' at '' @ [CHR 0x22] @ ''https://skill.example/api/messages''
                   @ [CHR 0x22] @ '' (status is 199). ''
                   @ [CHR 0x0D, CHR 0x0A] @ '' None''))
   \<and> fst (send_to_skill (sample_schema []) (sample_options 300 (Some ''busy''))
          (sample_context sample_user_message) sample_user_message None empty_world)
     = Inl (Exception (''Error invoking the skill id: '' @ [CHR 0x22] @ ''booking''
                   @ [CHR 0x22] @ '' at '' @ [CHR 0x22] @ ''https://skill.example/api/messages''
                   @ [CHR 0x22] @ '' (status is 300). ''
                   @ [CHR 0x0D, CHR 0x0A] @ '' busy''))
   \<and> fst (send_to_skill (sample_schema []) (sample_options 200 None)
          (sample_context sample_user_message) sample_user_message None empty_world) = Inr None
   \<and> fst (send_to_skill (sample_schema []) (sample_options 299 None)
          (sample_context sample_user_message) sample_user_message None empty_world) = Inr None"
proof -
  have s199: "str_int 199 = ''199''" and s300: "str_int 300 = ''300''"
    by code_simp+
  note inst = status_outside_2xx_aborts[where w = empty_world and lib = "sample_schema []"
      and ctx = "sample_context sample_user_message" and a = sample_user_message
      and cn = None and cid = "''skill-conversation''"]
  have a: "fst (send_to_skill (sample_schema []) (sample_options 199 None)
          (sample_context sample_user_message) sample_user_message None empty_world)
     = Inl (Exception (''Error invoking the skill id: '' @ [CHR 0x22] @ ''booking''
                   @ [CHR 0x22] @ '' at '' @ [CHR 0x22] @ ''https://skill.example/api/messages''
                   @ [CHR 0x22] @ '' (status is 199). ''
                   @ [CHR 0x0D, CHR 0x0A] @ '' None''))"
    using inst[where self = "sample_options 199 None" and response = "\<lparr> status = 199, body = None \<rparr>"]
    by (simp add: sample_options_def sample_skill_def s199 str_opt_def)
  have b: "fst (send_to_skill (sample_schema []) (sample_options 300 (Some ''busy''))
          (sample_context sample_user_message) sample_user_message None empty_world)
     = Inl (Exception (''Error invoking the skill id: '' @ [CHR 0x22] @ ''booking''
                   @ [CHR 0x22] @ '' at '' @ [CHR 0x22] @ ''https://skill.example/api/messages''
                   @ [CHR 0x22] @ '' (status is 300). ''
                   @ [CHR 0x0D, CHR 0x0A] @ '' busy''))"
    using inst[where self = "sample_options 300 (Some ''busy'')"
        and response = "\<lparr> status = 300, body = Some ''busy'' \<rparr>"]
    by (simp add: sample_options_def sample_skill_def s300 str_opt_def)
  have c: "fst (send_to_skill (sample_schema []) (sample_options 200 None)
          (sample_context sample_user_message) sample_user_message None empty_world) = Inr None"
    using inst[where self = "sample_options 200 None" and response = "\<lparr> status = 200, body = None \<rparr>"]
    by (simp add: sample_options_def truthy_def returnA_def)
  have d: "fst (send_to_skill (sample_schema []) (sample_options 299 None)
          (sample_context sample_user_message) sample_user_message None empty_world) = Inr None"
    using inst[where self = "sample_options 299 None" and response = "\<lparr> status = 299, body = None \<rparr>"]
    by (simp add: sample_options_def truthy_def returnA_def)
  from a b c d show ?thesis by (intro conjI)
qed

section \<open>An end of conversation arriving as the turn's activity\<close>

text \<open>
  Claim C10. When the activity of the turn is an end-of-conversation activity,
  \<^verbatim>\<open>continue_dialog\<close> creates no skill conversation id, saves no state and posts nothing;
  when its two trace activities are sent, it ends the dialog with the value of that
  activity, returns what ending the dialog returns, and makes no other call.
\<close>

theorem continue_on_end_of_conversation:
  assumes "activity_type (context_activity (turn dc)) = Some ActivityTypes_end_of_conversation"
  shows "filter skill_event (events_since w (snd (continue_dialog lib self dc w))) = []
     \<and> (send_trace_activity (turn dc) (event_log w) ''SkillDialog.continue_dialog()''
           (''ActivityType: '' @ ActivityTypes_end_of_conversation) = Inr ()
        \<and> send_trace_activity (turn dc)
            (event_log w @ [SendTraceActivity ''SkillDialog.continue_dialog()''
               (''ActivityType: '' @ ActivityTypes_end_of_conversation)])
            ''SkillDialog.continue_dialog()'' (''Got '' @ ActivityTypes_end_of_conversation) = Inr ()
        \<longrightarrow> fst (continue_dialog lib self dc w) =
              dc_end_dialog dc
                (event_log w @
                   [SendTraceActivity ''SkillDialog.continue_dialog()''
                      (''ActivityType: '' @ ActivityTypes_end_of_conversation),
                    SendTraceActivity ''SkillDialog.continue_dialog()''
                      (''Got '' @ ActivityTypes_end_of_conversation)])
                (activity_value (context_activity (turn dc)))
            \<and> events_since w (snd (continue_dialog lib self dc w)) =
                [SendTraceActivity ''SkillDialog.continue_dialog()''
                   (''ActivityType: '' @ ActivityTypes_end_of_conversation),
                 SendTraceActivity ''SkillDialog.continue_dialog()''
                   (''Got '' @ ActivityTypes_end_of_conversation),
                 DialogContextEndDialog (activity_value (context_activity (turn dc)))])"
  using assms
  by (auto simp add: continue_dialog_def bindA_def trace_activity_def call_def
        end_dialog_context_def str_opt_def split: sum.splits)

theorem continue_on_end_of_conversation_witness:
  "activity_type (context_activity (turn (sample_dialog_context sample_end_of_conversation)))
      = Some ActivityTypes_end_of_conversation
   \<and> fst (continue_dialog (sample_schema []) (sample_options 200 None)
            (sample_dialog_context sample_end_of_conversation) empty_world)
       = Inr (Complete (PyObject ''booking-confirmed''))
   \<and> events_since empty_world
        (snd (continue_dialog (sample_schema []) (sample_options 200 None)
            (sample_dialog_context sample_end_of_conversation) empty_world))
       = [SendTraceActivity ''SkillDialog.continue_dialog()''
            (''ActivityType: '' @ ActivityTypes_end_of_conversation),
          SendTraceActivity ''SkillDialog.continue_dialog()''
            (''Got '' @ ActivityTypes_end_of_conversation),
          DialogContextEndDialog (PyObject ''booking-confirmed'')]"
proof -
  have h: "activity_type (context_activity (turn (sample_dialog_context sample_end_of_conversation)))
      = Some ActivityTypes_end_of_conversation"
    by (simp add: sample_dialog_context_def sample_context_def sample_end_of_conversation_def
          Activity_def)
  show ?thesis
    using h continue_on_end_of_conversation[OF h, of empty_world "sample_schema []"
        "sample_options 200 None"]
    by (simp add: sample_dialog_context_def sample_context_def sample_end_of_conversation_def
          Activity_def)
qed

section \<open>Sequencing\<close>

lemma bindA_liftA: "bindA (liftA r) f w = (case r of Inl e \<Rightarrow> (Inl e, w) | Inr x \<Rightarrow> f x w)"
  by (simp add: bindA_def liftA_def split: sum.splits)

lemma bindA_call:
  "bindA (call ev answer) f w =
     (case answer (event_log w) of
        Inl e \<Rightarrow> (Inl e, w\<lparr> event_log := event_log w @ [ev] \<rparr>)
      | Inr x \<Rightarrow> f x (w\<lparr> event_log := event_log w @ [ev] \<rparr>))"
  by (simp add: bindA_def call_def split: sum.splits)

lemma bindA_set_state:
  "bindA (set_state key v) f w =
     f () (w\<lparr> active_dialog_state := (active_dialog_state w)(key \<mapsto> v) \<rparr>)"
  by (simp add: bindA_def set_state_def)

lemma bindA_get_state:
  "bindA (get_state key) f w =
     (case active_dialog_state w key of None \<Rightarrow> (Inl (KeyError key), w) | Some v \<Rightarrow> f v w)"
  by (simp add: bindA_def get_state_def split: option.splits)

lemma events_since_bindA:
  assumes "frame_preserving m" "\<And>x. frame_preserving (k x)"
  shows "events_since w (snd (bindA m k w)) =
           events_since w (snd (m w)) @
             (case fst (m w) of
                Inl e \<Rightarrow> []
              | Inr x \<Rightarrow> events_since (snd (m w)) (snd (k x (snd (m w)))))"
proof -
  obtain r w1 where m: "m w = (r, w1)" by (cases "m w")
  show ?thesis
  proof (cases r)
    case (Inl e)
    with m show ?thesis by (simp add: bindA_def)
  next
    case (Inr x)
    have "prefix (event_log w) (event_log w1)"
      using fp_prefix[OF assms(1), of w] m by simp
    moreover have "prefix (event_log w1) (event_log (snd (k x w1)))"
      using assms(2) by (rule fp_prefix)
    ultimately have "events_since w (snd (k x w1)) = events_since w w1 @ events_since w1 (snd (k x w1))"
      by (rule events_since_trans)
    with Inr m show ?thesis by (simp add: bindA_def)
  qed
qed

lemma send_to_skill_fails_early:
  "conversation_id_factory self (event_log w) (factory_options self ctx a) = Inl e
     \<Longrightarrow> fst (send_to_skill lib self ctx a cn w) = Inl e"
  "conversation_id_factory self (event_log w) (factory_options self ctx a) = Inr cid
     \<Longrightarrow> conversation_state self
           (event_log w @ [CreateSkillConversationId (factory_options self ctx a)]) = Inl e
     \<Longrightarrow> fst (send_to_skill lib self ctx a cn w) = Inl e"
  by (simp_all add: send_to_skill_unfold Let_def)

section \<open>Intercepting OAuth cards\<close>

text \<open>
  Without a connection name, or with an adapter that is no token provider, the
  interception returns \<^verbatim>\<open>False\<close> and calls nothing. Once an OAuth card attachment is
  found, nothing that fails is raised to the caller. When no attachment is an OAuth
  card, what \<^verbatim>\<open>next\<close> raises leaves the interception.
\<close>

lemma intercept_without_connection_name:
  "\<not> truthy cn \<Longrightarrow> intercept_oauth_cards lib self ctx a cn w = (Inr False, w)"
  by (simp add: intercept_oauth_cards_def returnA_def)

lemma intercept_without_token_provider:
  "adapter ctx = BotAdapter \<Longrightarrow> intercept_oauth_cards lib self ctx a cn w = (Inr False, w)"
  by (simp add: intercept_oauth_cards_def returnA_def)

lemma tryA_returns: "\<exists>b. fst (tryA m (returnA c) w) = Inr b"
  by (cases "m w") (auto simp: tryA_def returnA_def split: sum.splits)

lemma intercept_swallows_after_card:
  assumes "next_oauth_card_attachment (attachments a) = Inr att"
  shows "\<exists>b. fst (intercept_oauth_cards lib self ctx a cn w) = Inr b"
  using assms tryA_returns
  by (auto simp add: intercept_oauth_cards_def returnA_def bindA_def liftA_def
        split: bot_adapter.splits option.splits)

lemma intercept_raises_without_card:
  assumes "truthy cn" "adapter ctx = ExtendedUserTokenProvider ex"
    "next_oauth_card_attachment (attachments a) = Inl e"
  shows "intercept_oauth_cards lib self ctx a cn w = (Inl e, w)"
  using assms
  by (simp add: intercept_oauth_cards_def bindA_def liftA_def)

lemma follow_up_handled_only_for_200:
  assumes "truthy cn"
    and "adapter ctx = ExtendedUserTokenProvider exchange_token"
    and "next_oauth_card_attachment (attachments a) = Inr att"
    and "content att = Some oauth"
    and "token_exchange_resource oauth = Some resource"
    and "truthy (uri resource)"
    and "from_property (context_activity ctx) = Some user"
    and "exchange_token (event_log w) cn (account_id user) (uri resource) = Inr (Some r)"
    and "truthy (token r)"
    and "create_reply lib a = Inr reply"
    and "conversation a = Some c"
    and "skill_client self (event_log w @ [ExchangeToken cn (account_id user) (uri resource)])
           (bot_id self) (app_id (skill self)) (skill_endpoint (skill self))
           (skill_host_endpoint self) (conversation_account_id c)
           (reply\<lparr> activity_type := Some ActivityTypes_invoke,
                      activity_name := Some SignInConstants_token_exchange_operation_name,
                      activity_value := TokenExchangeInvokeRequest (resource_id resource) (token r)
                                          (card_connection_name oauth) \<rparr>) = Inr response"
  shows "fst (intercept_oauth_cards lib self ctx a cn w) = Inr (status response = 200)"
  using assms
  by (simp add: intercept_oauth_cards_def bindA_def liftA_def tryA_def call_def returnA_def
        send_token_exchange_invoke_to_skill_def post_activity_def Let_def status_class_is_2_iff)

lemmas sample_defs = sample_skill_def sample_options_def sample_user_message_def
  sample_context_def sample_dialog_context_def sample_schema_def empty_world_def Activity_def
  sample_oauth_card_reply_def sample_text_reply_def sample_expect_replies_message_def

lemmas run_defs = intercept_oauth_cards_def bindA_def liftA_def tryA_def call_def returnA_def
        send_token_exchange_invoke_to_skill_def post_activity_def Let_def truthy_def
        next_oauth_card_attachment_def raiseA_def

text \<open>
  Claim C1. The claim is that the interception reports the card as handled exactly
  when the follow-up call returns a status from 200 to 299. The code compares
  \<^verbatim>\<open>response.status / 100\<close> with 2 under true division, which holds for status 200
  only: in the sample deployment the token is exchanged, the invoke activity is posted,
  the skill client answers 204, and the interception returns \<^verbatim>\<open>False\<close>.
\<close>

theorem follow_up_status_204_not_handled:
  "intercept_oauth_cards (sample_schema []) (sample_options 204 None)
     (sample_context sample_user_message) sample_oauth_card_reply (Some ''root-connection'')
     empty_world
   = (Inr False,
      \<lparr> event_log =
          [ExchangeToken (Some ''root-connection'') (Some ''user-1'') (Some ''api://skill/resource''),
           PostActivity ''root-bot'' ''skill-app'' ''https://skill.example/api/messages''
             ''https://root.example/api/skills'' (Some ''root-conversation'')
             (Activity\<lparr> activity_type := Some ActivityTypes_invoke,
                 activity_name := Some SignInConstants_token_exchange_operation_name,
                 activity_value := TokenExchangeInvokeRequest (Some ''resource-1'')
                     (Some ''exchanged-token'') (Some ''skill-connection''),
                 conversation := Some \<lparr> conversation_account_id = Some ''root-conversation'' \<rparr> \<rparr>)],
        active_dialog_state = Map.empty \<rparr>)
   \<and> skill_client (sample_options 204 None) [] '''' '''' '''' '''' None Activity
       = Inr \<lparr> status = 204, body = None \<rparr>"
  by (simp add: sample_defs run_defs status_class_is_2_iff)

text \<open>
  Claim C2. The claim is that the interception always returns a boolean and returns
  \<^verbatim>\<open>False\<close> when no attachment is an OAuth card. With a connection name and a token
  provider, a reply whose attachment list holds no OAuth card makes \<^verbatim>\<open>next\<close> run out;
  the error is raised outside the \<^verbatim>\<open>try\<close> block and leaves the interception.
\<close>

theorem intercept_raises_on_reply_without_oauth_card:
  "intercept_oauth_cards (sample_schema []) (sample_options 200 None)
     (sample_context sample_user_message) sample_text_reply (Some ''root-connection'')
     empty_world
   = (Inl (RuntimeError ''coroutine raised StopIteration''), empty_world)"
  by (simp add: sample_defs run_defs)

text \<open>
  Claim C6. When the token exchange yields a token, the reply can be built and the
  incoming activity has a conversation, the interception makes exactly two calls: the
  exchange, with the caller's connection name, and one post of the reply turned into an
  invoke activity with the token-exchange operation name, whose value holds the card's
  resource id, the exchanged token and the card's own connection name. The post goes to
  the conversation id of the incoming activity; no skill conversation id is created.
\<close>

theorem token_exchange_invoke_shape:
  assumes "truthy cn"
    and "adapter ctx = ExtendedUserTokenProvider exchange_token"
    and "next_oauth_card_attachment (attachments a) = Inr att"
    and "content att = Some oauth"
    and "token_exchange_resource oauth = Some resource"
    and "truthy (uri resource)"
    and "from_property (context_activity ctx) = Some user"
    and "exchange_token (event_log w) cn (account_id user) (uri resource) = Inr (Some r)"
    and "truthy (token r)"
    and "create_reply lib a = Inr reply"
    and "conversation a = Some c"
  shows "events_since w (snd (intercept_oauth_cards lib self ctx a cn w)) =
           [ExchangeToken cn (account_id user) (uri resource),
            PostActivity (bot_id self) (app_id (skill self)) (skill_endpoint (skill self))
              (skill_host_endpoint self) (conversation_account_id c)
              (reply\<lparr> activity_type := Some ActivityTypes_invoke,
                      activity_name := Some SignInConstants_token_exchange_operation_name,
                      activity_value := TokenExchangeInvokeRequest (resource_id resource) (token r)
                                          (card_connection_name oauth) \<rparr>)]"
  using assms
  by (simp add: intercept_oauth_cards_def bindA_def liftA_def tryA_def call_def returnA_def
        send_token_exchange_invoke_to_skill_def post_activity_def Let_def split: sum.splits)

theorem token_exchange_invoke_shape_witness:
  "events_since empty_world
     (snd (intercept_oauth_cards (sample_schema []) (sample_options 200 None)
        (sample_context sample_user_message) sample_oauth_card_reply (Some ''root-connection'')
        empty_world))
   = [ExchangeToken (Some ''root-connection'') (Some ''user-1'') (Some ''api://skill/resource''),
      PostActivity ''root-bot'' ''skill-app'' ''https://skill.example/api/messages''
        ''https://root.example/api/skills'' (Some ''root-conversation'')
        (Activity\<lparr> activity_type := Some ActivityTypes_invoke,
            activity_name := Some SignInConstants_token_exchange_operation_name,
            activity_value := TokenExchangeInvokeRequest (Some ''resource-1'')
                (Some ''exchanged-token'') (Some ''skill-connection''),
            conversation := Some \<lparr> conversation_account_id = Some ''root-conversation'' \<rparr> \<rparr>)]"
  using token_exchange_invoke_shape[where cn = "Some ''root-connection''"
      and ctx = "sample_context sample_user_message"
      and exchange_token = "\<lambda>h cn user resource_uri. Inr (Some \<lparr> token = Some ''exchanged-token'' \<rparr>)"
      and a = sample_oauth_card_reply
      and att = "\<lparr> content_type = Some ContentTypes_oauth_card,
        content = Some \<lparr> card_connection_name = Some ''skill-connection'',
          token_exchange_resource = Some \<lparr> resource_id = Some ''resource-1'',
            uri = Some ''api://skill/resource'' \<rparr> \<rparr> \<rparr>"
      and oauth = "\<lparr> card_connection_name = Some ''skill-connection'',
          token_exchange_resource = Some \<lparr> resource_id = Some ''resource-1'',
            uri = Some ''api://skill/resource'' \<rparr> \<rparr>"
      and resource = "\<lparr> resource_id = Some ''resource-1'', uri = Some ''api://skill/resource'' \<rparr>"
      and user = "\<lparr> account_id = Some ''user-1'' \<rparr>"
      and w = empty_world
      and r = "\<lparr> token = Some ''exchanged-token'' \<rparr>"
      and lib = "sample_schema []"
      and reply = "Activity\<lparr> activity_type := Some ''message'',
          conversation := Some \<lparr> conversation_account_id = Some ''root-conversation'' \<rparr> \<rparr>"
      and c = "\<lparr> conversation_account_id = Some ''root-conversation'' \<rparr>"
      and self = "sample_options 200 None"]
  by (simp add: sample_defs truthy_def next_oauth_card_attachment_def)

section \<open>The replies of an expectReplies response\<close>

text \<open>
  When no connection name is given and the channel accepts every activity, the loop
  sends every reply that is no end-of-conversation activity, in the order of the batch,
  and returns the last end-of-conversation activity.
\<close>

lemma process_replies_without_interception:
  assumes "\<not> truthy cn" "\<And>h a. send_activity ctx h a = Inr ()"
  shows "process_replies lib self ctx cn replies eoc w =
           (Inr (last_end_of_conversation replies eoc),
            w\<lparr> event_log := event_log w @
                 map SendActivity
                   (filter (\<lambda>a. activity_type a \<noteq> Some ActivityTypes_end_of_conversation)
                      replies) \<rparr>)"
  using assms
proof (induction replies arbitrary: eoc w)
  case Nil
  then show ?case by (simp add: returnA_def)
next
  case (Cons a rest)
  then show ?case
    by (simp add: bindA_def intercept_without_connection_name call_def)
qed

text \<open>
  Claim C3. The claim is that every reply that is neither an end-of-conversation
  activity nor an intercepted OAuth card is sent to the user. With a connection name
  and a token provider, an ordinary reply without an OAuth card makes the interception
  raise (the defect of claim C2): \<^verbatim>\<open>_send_to_skill\<close> raises too, and the reply is
  never sent.
\<close>

theorem text_reply_lost_when_connection_name_given:
  "send_to_skill (sample_schema [sample_text_reply]) (sample_options 200 (Some ''replies''))
     (sample_context sample_user_message) sample_expect_replies_message
     (Some ''root-connection'') empty_world
   = (Inl (RuntimeError ''coroutine raised StopIteration''),
      \<lparr> event_log =
          [CreateSkillConversationId
             \<lparr> from_bot_oauth_scope = None, from_bot_id = ''root-bot'',
               factory_activity = sample_expect_replies_message, factory_skill = sample_skill \<rparr>,
           SaveChanges,
           PostActivity ''root-bot'' ''skill-app'' ''https://skill.example/api/messages''
             ''https://root.example/api/skills'' (Some ''skill-conversation'')
             sample_expect_replies_message],
        active_dialog_state = Map.empty \<rparr>)
   \<and> activity_type sample_text_reply \<noteq> Some ActivityTypes_end_of_conversation"
  by (simp add: send_to_skill_unfold factory_options_def posting_def
       sample_skill_def sample_options_def sample_context_def sample_schema_def
       empty_world_def sample_expect_replies_message_def sample_user_message_def sample_text_reply_def
       Activity_def run_defs ActivityTypes_end_of_conversation_def)

section \<open>Ending the dialog\<close>

lemma cancellation_activity_fields:
  "activity_type (cancellation_activity ctx) = Some ActivityTypes_end_of_conversation"
  "delivery_mode (cancellation_activity ctx) = None"
  "channel_data (cancellation_activity ctx) = channel_data (context_activity ctx)"
  "additional_properties (cancellation_activity ctx) = additional_properties (context_activity ctx)"
  by (simp_all add: cancellation_activity_def apply_conversation_reference_def Let_def Activity_def)

text \<open>
  Claim C9. When \<^verbatim>\<open>end_dialog\<close> is called because the dialog was cancelled or replaced
  and it returns, the base \<^verbatim>\<open>end_dialog\<close> is its last call and exactly one activity was
  posted to the skill before it: an end-of-conversation activity with the channel data
  and the additional properties of the turn's activity. When it raises, the base
  \<^verbatim>\<open>end_dialog\<close> is not reached and at most that one activity was posted. For any other
  reason the base \<^verbatim>\<open>end_dialog\<close> is the only call.
\<close>

theorem end_dialog_sends_one_end_of_conversation:
  "(reason = CancelCalled \<or> reason = ReplaceCalled \<longrightarrow>
      (case fst (end_dialog lib self ctx reason w) of
         Inr u \<Rightarrow>
           last (events_since w (snd (end_dialog lib self ctx reason w))) = BaseEndDialog reason
           \<and> posted_activities (butlast (events_since w (snd (end_dialog lib self ctx reason w))))
               = [cancellation_activity ctx]
       | Inl e \<Rightarrow>
           BaseEndDialog reason \<notin> set (events_since w (snd (end_dialog lib self ctx reason w)))
           \<and> (posted_activities (events_since w (snd (end_dialog lib self ctx reason w))) = []
              \<or> posted_activities (events_since w (snd (end_dialog lib self ctx reason w)))
                  = [cancellation_activity ctx]))
      \<and> activity_type (cancellation_activity ctx) = Some ActivityTypes_end_of_conversation
      \<and> channel_data (cancellation_activity ctx) = channel_data (context_activity ctx)
      \<and> additional_properties (cancellation_activity ctx)
          = additional_properties (context_activity ctx))
   \<and> (reason \<noteq> CancelCalled \<and> reason \<noteq> ReplaceCalled \<longrightarrow>
        fst (end_dialog lib self ctx reason w) = Inr ()
        \<and> events_since w (snd (end_dialog lib self ctx reason w)) = [BaseEndDialog reason])"
  by (auto simp add: end_dialog_def bindA_def trace_activity_def call_def send_to_skill_unfold
        Let_def cancellation_activity_fields returnA_def posting_def
        split: sum.splits)

theorem end_dialog_sends_one_end_of_conversation_witness:
  "end_dialog (sample_schema []) (sample_options 200 None) (sample_context sample_user_message)
      CancelCalled empty_world
   = (Inr (),
      \<lparr> event_log =
          [SendTraceActivity ''SkillDialog.end_dialog()'' ''ActivityType: message'',
           CreateSkillConversationId
             \<lparr> from_bot_oauth_scope = None, from_bot_id = ''root-bot'',
               factory_activity = cancellation_activity (sample_context sample_user_message),
               factory_skill = sample_skill \<rparr>,
           SaveChanges,
           PostActivity ''root-bot'' ''skill-app'' ''https://skill.example/api/messages''
             ''https://root.example/api/skills'' (Some ''skill-conversation'')
             (cancellation_activity (sample_context sample_user_message)),
           BaseEndDialog CancelCalled],
        active_dialog_state = Map.empty \<rparr>)
   \<and> posted_activities (butlast (events_since empty_world
        (snd (end_dialog (sample_schema []) (sample_options 200 None)
                (sample_context sample_user_message) CancelCalled empty_world))))
       = [cancellation_activity (sample_context sample_user_message)]
   \<and> channel_data (cancellation_activity (sample_context sample_user_message))
       = PyObject ''channel-data''
   \<and> events_since empty_world
        (snd (end_dialog (sample_schema []) (sample_options 200 None)
                (sample_context sample_user_message) EndCalled empty_world))
       = [BaseEndDialog EndCalled]"
proof -
  have run: "end_dialog (sample_schema []) (sample_options 200 None) (sample_context sample_user_message)
      CancelCalled empty_world
   = (Inr (),
      \<lparr> event_log =
          [SendTraceActivity ''SkillDialog.end_dialog()'' ''ActivityType: message'',
           CreateSkillConversationId
             \<lparr> from_bot_oauth_scope = None, from_bot_id = ''root-bot'',
               factory_activity = cancellation_activity (sample_context sample_user_message),
               factory_skill = sample_skill \<rparr>,
           SaveChanges,
           PostActivity ''root-bot'' ''skill-app'' ''https://skill.example/api/messages''
             ''https://root.example/api/skills'' (Some ''skill-conversation'')
             (cancellation_activity (sample_context sample_user_message)),
           BaseEndDialog CancelCalled],
        active_dialog_state = Map.empty \<rparr>)"
    by (simp add: end_dialog_def bindA_def trace_activity_def call_def send_to_skill_unfold
        Let_def cancellation_activity_fields returnA_def posting_def factory_options_def
        sample_skill_def sample_options_def sample_context_def empty_world_def str_opt_def
        sample_user_message_def Activity_def)
  note cancel = end_dialog_sends_one_end_of_conversation[where reason = CancelCalled
        and lib = "sample_schema []" and self = "sample_options 200 None"
        and ctx = "sample_context sample_user_message" and w = empty_world]
  note natural = end_dialog_sends_one_end_of_conversation[where reason = EndCalled
        and lib = "sample_schema []" and self = "sample_options 200 None"
        and ctx = "sample_context sample_user_message" and w = empty_world]
  from cancel have one: "posted_activities (butlast (events_since empty_world
        (snd (end_dialog (sample_schema []) (sample_options 200 None)
                (sample_context sample_user_message) CancelCalled empty_world))))
       = [cancellation_activity (sample_context sample_user_message)]"
    by (simp add: run)
  from cancel have "channel_data (cancellation_activity (sample_context sample_user_message))
       = channel_data (context_activity (sample_context sample_user_message))"
    by simp
  then have data: "channel_data (cancellation_activity (sample_context sample_user_message))
       = PyObject ''channel-data''"
    by (simp add: sample_context_def sample_user_message_def Activity_def)
  from natural have none: "events_since empty_world
        (snd (end_dialog (sample_schema []) (sample_options 200 None)
                (sample_context sample_user_message) EndCalled empty_world))
       = [BaseEndDialog EndCalled]"
    by simp
  from run one data none show ?thesis by (intro conjI)
qed

section \<open>The stored delivery mode and connection name\<close>

lemma continue_turns_state:
  "active_dialog_state (continue_turns lib self dcs w) = active_dialog_state w"
  by (induction dcs arbitrary: w) (simp_all add: fp_state[OF fp_continue_dialog])

lemma state_keys_differ: "deliver_mode_state_key \<noteq> sso_connection_name_key"
  by (simp add: deliver_mode_state_key_def sso_connection_name_key_def)

lemma begin_dialog_state:
  assumes "options_activity args = Some a"
    and "send_trace_activity (turn dc) (event_log w) ''SkillDialog.BeginDialogAsync()''
           (''Using activity of type: '' @ str_opt (activity_type a)) = Inr ()"
  shows "active_dialog_state (snd (begin_dialog lib self dc (BeginOptions args) w)) =
           (active_dialog_state w)
             (deliver_mode_state_key \<mapsto> delivery_mode a,
              sso_connection_name_key \<mapsto> options_connection_name args)"
proof -
  let ?rest = "bindA (send_to_skill lib self (turn dc)
                 (apply_conversation_reference a
                    (get_conversation_reference (context_activity (turn dc))) True)
                 (options_connection_name args))
               (\<lambda>eoc_activity. case eoc_activity of
                   Some eoc \<Rightarrow> end_dialog_context dc (activity_value eoc)
                 | None \<Rightarrow> returnA EndOfTurn)"
  let ?w2 = "w\<lparr> event_log := event_log w @
                 [SendTraceActivity ''SkillDialog.BeginDialogAsync()''
                    (''Using activity of type: '' @ str_opt (activity_type a))],
               active_dialog_state := (active_dialog_state w)
                 (deliver_mode_state_key \<mapsto> delivery_mode a,
                  sso_connection_name_key \<mapsto> options_connection_name args) \<rparr>"
  have fp: "frame_preserving ?rest"
    by (intro fp_intros fp_send_to_skill fp_end_dialog_context)
  have "begin_dialog lib self dc (BeginOptions args) w = ?rest ?w2"
    using assms
    by (simp add: begin_dialog_def validate_begin_dialog_args_def from_object_def
          bindA_liftA trace_activity_def bindA_call bindA_set_state Let_def)
  then have "active_dialog_state (snd (begin_dialog lib self dc (BeginOptions args) w))
               = active_dialog_state ?w2"
    using fp_state[OF fp, of ?w2] by simp
  then show ?thesis by simp
qed

lemma continue_dialog_forwards:
  assumes dm: "active_dialog_state w deliver_mode_state_key = Some dm"
    and cn: "active_dialog_state w sso_connection_name_key = Some cn"
  shows "case posted_activities (events_since w (snd (continue_dialog lib self dc w))) of
           [] \<Rightarrow> True
         | x # xs \<Rightarrow> x = (context_activity (turn dc))\<lparr> delivery_mode := dm \<rparr>"
proof (cases "activity_type (context_activity (turn dc)) = Some ActivityTypes_end_of_conversation")
  case True
  then show ?thesis
    by (auto simp add: continue_dialog_def bindA_def trace_activity_def call_def
          end_dialog_context_def split: sum.splits)
next
  case False
  let ?T = "SendTraceActivity ''SkillDialog.continue_dialog()''
              (''ActivityType: '' @ str_opt (activity_type (context_activity (turn dc))))"
  let ?a = "(context_activity (turn dc))\<lparr> delivery_mode := dm \<rparr>"
  let ?send = "send_to_skill lib self (turn dc) ?a cn"
  let ?k = "\<lambda>eoc_activity. case eoc_activity of
                   Some eoc \<Rightarrow> end_dialog_context dc (activity_value eoc)
                 | None \<Rightarrow> returnA EndOfTurn"
  let ?w1 = "w\<lparr> event_log := event_log w @ [?T] \<rparr>"
  show ?thesis
  proof (cases "send_trace_activity (turn dc) (event_log w) ''SkillDialog.continue_dialog()''
              (''ActivityType: '' @ str_opt (activity_type (context_activity (turn dc))))")
    case (Inl e)
    then show ?thesis
      by (simp add: continue_dialog_def trace_activity_def bindA_call)
  next
    case (Inr u)
    have fpk: "\<And>x. frame_preserving (?k x)"
      by (intro fp_intros fp_end_dialog_context)
    have fp: "frame_preserving (bindA ?send ?k)"
      by (intro fp_intros fp_send_to_skill fp_end_dialog_context)
    have run: "continue_dialog lib self dc w = bindA ?send ?k ?w1"
      using False Inr dm cn
      by (simp add: continue_dialog_def trace_activity_def bindA_call bindA_get_state Let_def)
    have "events_since w (snd (bindA ?send ?k ?w1)) = [?T] @ events_since ?w1 (snd (bindA ?send ?k ?w1))"
      using fp by (rule events_since_after)
    also have "events_since ?w1 (snd (bindA ?send ?k ?w1)) =
        events_since ?w1 (snd (?send ?w1)) @
             (case fst (?send ?w1) of
                Inl e \<Rightarrow> []
              | Inr x \<Rightarrow> events_since (snd (?send ?w1)) (snd (?k x (snd (?send ?w1)))))"
      using fp_send_to_skill fpk by (rule events_since_bindA)
    finally have es: "events_since w (snd (continue_dialog lib self dc w)) =
        ?T # events_since ?w1 (snd (?send ?w1)) @
             (case fst (?send ?w1) of
                Inl e \<Rightarrow> []
              | Inr x \<Rightarrow> events_since (snd (?send ?w1)) (snd (?k x (snd (?send ?w1)))))"
      by (simp add: run)
    show ?thesis
    proof (cases rule: send_to_skill_events[of ?w1 lib self "turn dc" ?a cn])
      case (no_id e)
      then show ?thesis
        using send_to_skill_fails_early(1)[of self ?w1 "turn dc" ?a e lib cn]
        by (simp add: es)
    next
      case (no_save e)
      show ?thesis
      proof (cases "conversation_id_factory self (event_log ?w1) (factory_options self (turn dc) ?a)")
        case (Inl e')
        with no_save show ?thesis
          using send_to_skill_fails_early(1)[of self ?w1 "turn dc" ?a e' lib cn]
          by (simp add: es)
      next
        case (Inr cid)
        with no_save show ?thesis
          using send_to_skill_fails_early(2)[of self ?w1 "turn dc" ?a cid e lib cn]
          by (simp add: es)
      qed
    next
      case (posted cid rest)
      then show ?thesis by (simp add: es posting_def)
    qed
  qed
qed

text \<open>
  Claim C4. After \<^verbatim>\<open>begin_dialog\<close> with options that carry an activity (and a trace
  activity that is sent), and after any number of later \<^verbatim>\<open>continue_dialog\<close> turns, the
  frame state holds the delivery mode of the supplied activity and the supplied
  connection name; and the first activity that a further \<^verbatim>\<open>continue_dialog\<close> posts, if
  it posts any, is the turn's activity with the stored delivery mode.
\<close>

theorem stored_delivery_mode_and_connection_name:
  assumes "options_activity args = Some a"
    and "send_trace_activity (turn dc) (event_log w) ''SkillDialog.BeginDialogAsync()''
           (''Using activity of type: '' @ str_opt (activity_type a)) = Inr ()"
  shows "active_dialog_state
           (continue_turns lib self dcs (snd (begin_dialog lib self dc (BeginOptions args) w)))
           deliver_mode_state_key = Some (delivery_mode a)
       \<and> active_dialog_state
           (continue_turns lib self dcs (snd (begin_dialog lib self dc (BeginOptions args) w)))
           sso_connection_name_key = Some (options_connection_name args)
       \<and> (case posted_activities
                 (events_since
                    (continue_turns lib self dcs
                       (snd (begin_dialog lib self dc (BeginOptions args) w)))
                    (snd (continue_dialog lib self next_dc
                       (continue_turns lib self dcs
                          (snd (begin_dialog lib self dc (BeginOptions args) w)))))) of
             [] \<Rightarrow> True
           | x # xs \<Rightarrow> x = (context_activity (turn next_dc))\<lparr> delivery_mode := delivery_mode a \<rparr>)"
proof -
  let ?w = "continue_turns lib self dcs (snd (begin_dialog lib self dc (BeginOptions args) w))"
  have st: "active_dialog_state ?w =
           (active_dialog_state w)
             (deliver_mode_state_key \<mapsto> delivery_mode a,
              sso_connection_name_key \<mapsto> options_connection_name args)"
    using begin_dialog_state[OF assms] by (simp add: continue_turns_state)
  have dm: "active_dialog_state ?w deliver_mode_state_key = Some (delivery_mode a)"
    using state_keys_differ by (simp add: st)
  have cn: "active_dialog_state ?w sso_connection_name_key = Some (options_connection_name args)"
    by (simp add: st)
  from dm cn continue_dialog_forwards[OF dm cn] show ?thesis by (intro conjI)
qed

theorem stored_delivery_mode_and_connection_name_witness:
  "options_activity \<lparr> options_activity = Some sample_expect_replies_message,
                      options_connection_name = Some ''root-connection'' \<rparr>
     = Some sample_expect_replies_message
   \<and> send_trace_activity (turn (sample_dialog_context sample_user_message))
        (event_log empty_world) ''SkillDialog.BeginDialogAsync()''
        (''Using activity of type: '' @ str_opt (activity_type sample_expect_replies_message))
      = Inr ()
   \<and> active_dialog_state
        (continue_turns (sample_schema []) (sample_options 200 None)
           [sample_dialog_context sample_user_message, sample_dialog_context sample_user_message]
           (snd (begin_dialog (sample_schema []) (sample_options 200 None)
                   (sample_dialog_context sample_user_message)
                   (BeginOptions \<lparr> options_activity = Some sample_expect_replies_message,
                      options_connection_name = Some ''root-connection'' \<rparr>) empty_world)))
        deliver_mode_state_key = Some (Some DeliveryModes_expect_replies)
   \<and> active_dialog_state
        (continue_turns (sample_schema []) (sample_options 200 None)
           [sample_dialog_context sample_user_message, sample_dialog_context sample_user_message]
           (snd (begin_dialog (sample_schema []) (sample_options 200 None)
                   (sample_dialog_context sample_user_message)
                   (BeginOptions \<lparr> options_activity = Some sample_expect_replies_message,
                      options_connection_name = Some ''root-connection'' \<rparr>) empty_world)))
        sso_connection_name_key = Some (Some ''root-connection'')"
proof -
  have h1: "options_activity \<lparr> options_activity = Some sample_expect_replies_message,
                      options_connection_name = Some ''root-connection'' \<rparr>
     = Some sample_expect_replies_message"
    by simp
  have h2: "send_trace_activity (turn (sample_dialog_context sample_user_message))
        (event_log empty_world) ''SkillDialog.BeginDialogAsync()''
        (''Using activity of type: '' @ str_opt (activity_type sample_expect_replies_message))
      = Inr ()"
    by (simp add: sample_dialog_context_def sample_context_def)
  have dm: "delivery_mode sample_expect_replies_message = Some DeliveryModes_expect_replies"
    by (simp add: sample_expect_replies_message_def)
  note inst = stored_delivery_mode_and_connection_name[OF h1 h2,
      where lib = "sample_schema []" and self = "sample_options 200 None"
        and dcs = "[sample_dialog_context sample_user_message,
                    sample_dialog_context sample_user_message]"
        and next_dc = "sample_dialog_context sample_user_message"]
  from inst have a: "active_dialog_state
        (continue_turns (sample_schema []) (sample_options 200 None)
           [sample_dialog_context sample_user_message, sample_dialog_context sample_user_message]
           (snd (begin_dialog (sample_schema []) (sample_options 200 None)
                   (sample_dialog_context sample_user_message)
                   (BeginOptions \<lparr> options_activity = Some sample_expect_replies_message,
                      options_connection_name = Some ''root-connection'' \<rparr>) empty_world)))
        deliver_mode_state_key = Some (Some DeliveryModes_expect_replies)"
    by (simp only: dm)
  from inst have b: "active_dialog_state
        (continue_turns (sample_schema []) (sample_options 200 None)
           [sample_dialog_context sample_user_message, sample_dialog_context sample_user_message]
           (snd (begin_dialog (sample_schema []) (sample_options 200 None)
                   (sample_dialog_context sample_user_message)
                   (BeginOptions \<lparr> options_activity = Some sample_expect_replies_message,
                      options_connection_name = Some ''root-connection'' \<rparr>) empty_world)))
        sso_connection_name_key = Some (Some ''root-connection'')"
    by simp
  from h1 h2 a b show ?thesis by (intro conjI)
qed

end
